theory Spec2Isabelle
  imports Complex_Main
begin

section \<open>JavaScript numbers\<close>

text \<open>
  The values of face.js are JavaScript numbers. They are modelled as the reals extended
  by the two infinities and NaN, with the IEEE 754 rules for the operations the file uses
  (subtraction, addition, multiplication, division, \<open>Math.sqrt\<close>, \<open>Math.max\<close> and
  \<open>>\<close>). Arithmetic on finite values is exact: rounding, overflow to an infinity and
  the sign of zero are not modelled. A landmark field that is \<open>undefined\<close> behaves as NaN
  in every arithmetic operation of the file.
\<close>

datatype jsnum = Num real | PosInf | NegInf | NaN

fun js_neg :: "jsnum \<Rightarrow> jsnum" where
  "js_neg (Num a) = Num (- a)"
| "js_neg PosInf = NegInf"
| "js_neg NegInf = PosInf"
| "js_neg NaN = NaN"

fun js_add :: "jsnum \<Rightarrow> jsnum \<Rightarrow> jsnum" where
  "js_add (Num a) (Num b) = Num (a + b)"
| "js_add (Num a) PosInf = PosInf"
| "js_add (Num a) NegInf = NegInf"
| "js_add PosInf (Num b) = PosInf"
| "js_add NegInf (Num b) = NegInf"
| "js_add PosInf PosInf = PosInf"
| "js_add NegInf NegInf = NegInf"
| "js_add PosInf NegInf = NaN"
| "js_add NegInf PosInf = NaN"
| "js_add NaN b = NaN"
| "js_add a NaN = NaN"

definition js_sub :: "jsnum \<Rightarrow> jsnum \<Rightarrow> jsnum" where
  "js_sub a b = js_add a (js_neg b)"

fun js_mul :: "jsnum \<Rightarrow> jsnum \<Rightarrow> jsnum" where
  "js_mul (Num a) (Num b) = Num (a * b)"
| "js_mul (Num a) PosInf = (if a = 0 then NaN else if 0 < a then PosInf else NegInf)"
| "js_mul (Num a) NegInf = (if a = 0 then NaN else if 0 < a then NegInf else PosInf)"
| "js_mul PosInf (Num b) = (if b = 0 then NaN else if 0 < b then PosInf else NegInf)"
| "js_mul NegInf (Num b) = (if b = 0 then NaN else if 0 < b then NegInf else PosInf)"
| "js_mul PosInf PosInf = PosInf"
| "js_mul NegInf NegInf = PosInf"
| "js_mul PosInf NegInf = NegInf"
| "js_mul NegInf PosInf = NegInf"
| "js_mul NaN b = NaN"
| "js_mul a NaN = NaN"

fun js_div :: "jsnum \<Rightarrow> jsnum \<Rightarrow> jsnum" where
  "js_div (Num a) (Num b) =
     (if b = 0 then (if a = 0 then NaN else if 0 < a then PosInf else NegInf)
      else Num (a / b))"
| "js_div (Num a) PosInf = Num 0"
| "js_div (Num a) NegInf = Num 0"
| "js_div PosInf (Num b) = (if 0 \<le> b then PosInf else NegInf)"
| "js_div NegInf (Num b) = (if 0 \<le> b then NegInf else PosInf)"
| "js_div PosInf PosInf = NaN"
| "js_div NegInf NegInf = NaN"
| "js_div PosInf NegInf = NaN"
| "js_div NegInf PosInf = NaN"
| "js_div NaN b = NaN"
| "js_div a NaN = NaN"

fun js_sqrt :: "jsnum \<Rightarrow> jsnum" where
  "js_sqrt (Num a) = (if a < 0 then NaN else Num (sqrt a))"
| "js_sqrt PosInf = PosInf"
| "js_sqrt NegInf = NaN"
| "js_sqrt NaN = NaN"

text \<open>\<open>a > b\<close>: false as soon as one side is NaN.\<close>

fun js_gt :: "jsnum \<Rightarrow> jsnum \<Rightarrow> bool" where
  "js_gt (Num a) (Num b) = (b < a)"
| "js_gt (Num a) PosInf = False"
| "js_gt (Num a) NegInf = True"
| "js_gt PosInf (Num b) = True"
| "js_gt NegInf (Num b) = False"
| "js_gt PosInf PosInf = False"
| "js_gt NegInf NegInf = False"
| "js_gt PosInf NegInf = True"
| "js_gt NegInf PosInf = False"
| "js_gt NaN b = False"
| "js_gt a NaN = False"

text \<open>\<open>Math.max(a, b)\<close>: NaN as soon as one argument is NaN.\<close>

fun js_max :: "jsnum \<Rightarrow> jsnum \<Rightarrow> jsnum" where
  "js_max NaN b = NaN"
| "js_max a NaN = NaN"
| "js_max a b = (if js_gt b a then b else a)"

section \<open>Landmarks and the gesture state\<close>

text \<open>
  A landmark is an object with the fields \<open>x\<close> and \<open>y\<close>. A landmark set is a JavaScript
  array read by index: \<open>landmarks[i]\<close> is \<open>undefined\<close> (here \<open>None\<close>) where the array has
  no entry.
\<close>

record landmark =
  x_coord :: jsnum
  y_coord :: jsnum

type_synonym landmarks = "nat \<rightharpoonup> landmark"

text \<open>The indices of \<open>FACE_LANDMARKS\<close> that the classifiers read.\<close>

definition MOUTH_LEFT :: nat where "MOUTH_LEFT = 61"
definition MOUTH_RIGHT :: nat where "MOUTH_RIGHT = 291"
definition MOUTH_TOP :: nat where "MOUTH_TOP = 13"
definition MOUTH_BOTTOM :: nat where "MOUTH_BOTTOM = 14"
definition NOSE_TIP :: nat where "NOSE_TIP = 1"

text \<open>
  \<open>gameGestureState\<close>. The cooldowns only ever hold whole numbers (0, 120, 45 and their
  decrements) and are integers here; \<open>lastNoseY\<close> is \<open>null\<close> (\<open>None\<close>) or a number.
\<close>

record gesture_state =
  smileBuffer :: "jsnum list"
  nodBuffer :: "jsnum list"
  smileCooldown :: int
  nodCooldown :: int
  lastNoseY :: "jsnum option"
  frameCount :: nat
  faceDetected :: bool
  gameStarted :: bool

definition gameGestureState :: gesture_state where
  "gameGestureState =
     \<lparr>smileBuffer = [], nodBuffer = [], smileCooldown = 0, nodCooldown = 0,
      lastNoseY = None, frameCount = 0, faceDetected = False, gameStarted = False\<rparr>"

section \<open>Utility functions\<close>

text \<open>\<open>distance(p1, p2)\<close>: 0 when a point is missing.\<close>

definition distance :: "landmark option \<Rightarrow> landmark option \<Rightarrow> jsnum" where
  "distance p1 p2 =
     (case (p1, p2) of
        (Some a, Some b) \<Rightarrow>
          (let dx = js_sub (x_coord a) (x_coord b);
               dy = js_sub (y_coord a) (y_coord b)
           in js_sqrt (js_add (js_mul dx dx) (js_mul dy dy)))
      | _ \<Rightarrow> Num 0)"

text \<open>\<open>buffer.reduce((sum, val) => sum + val, 0) / buffer.length\<close>.\<close>

definition average :: "jsnum list \<Rightarrow> jsnum" where
  "average buffer = js_div (foldl js_add (Num 0) buffer) (Num (real (length buffer)))"

text \<open>
  \<open>smoothBuffer(buffer, newValue, maxSize)\<close> pushes, shifts once when the buffer has
  become longer than \<open>maxSize\<close>, and returns the average. The buffer is mutated in place:
  the model returns the new buffer with the average.
\<close>

definition smoothBuffer :: "jsnum list \<Rightarrow> jsnum \<Rightarrow> nat \<Rightarrow> jsnum list \<times> jsnum" where
  "smoothBuffer buffer newValue maxSize =
     (let pushed = buffer @ [newValue];
          buffer' = (if maxSize < length pushed then tl pushed else pushed)
      in (buffer', average buffer'))"

section \<open>The classifiers\<close>

text \<open>
  What a \<open>try\<close> block of a classifier can throw: reading an index of a landmark set that
  is \<open>null\<close> or \<open>undefined\<close>. The \<open>catch\<close> logs a warning and returns \<open>false\<close>.
\<close>

datatype js_error = TypeError

text \<open>The local constants of \<open>detectGameSmile\<close>, lines 95 to 105.\<close>

definition aspectRatio :: "landmark \<Rightarrow> landmark \<Rightarrow> landmark \<Rightarrow> landmark \<Rightarrow> jsnum" where
  "aspectRatio leftCorner rightCorner topLip bottomLip =
     (let mouthWidth = distance (Some leftCorner) (Some rightCorner);
          mouthHeight = distance (Some topLip) (Some bottomLip)
      in if js_gt mouthWidth (Num 0) then js_div mouthHeight mouthWidth else Num 0)"

definition elevation :: "landmark \<Rightarrow> landmark \<Rightarrow> landmark \<Rightarrow> landmark \<Rightarrow> jsnum" where
  "elevation leftCorner rightCorner topLip bottomLip =
     (let mouthCenterY = js_div (js_add (y_coord topLip) (y_coord bottomLip)) (Num 2);
          avgCornerY = js_div (js_add (y_coord leftCorner) (y_coord rightCorner)) (Num 2)
      in js_sub mouthCenterY avgCornerY)"

definition smileScore :: "landmark \<Rightarrow> landmark \<Rightarrow> landmark \<Rightarrow> landmark \<Rightarrow> jsnum" where
  "smileScore leftCorner rightCorner topLip bottomLip =
     js_add (js_mul (aspectRatio leftCorner rightCorner topLip bottomLip) (Num (6 / 10)))
            (js_mul (js_max (Num 0)
                       (js_mul (elevation leftCorner rightCorner topLip bottomLip) (Num 100)))
                    (Num (4 / 10)))"

text \<open>The body of the \<open>try\<close> block of \<open>detectGameSmile\<close>.\<close>

definition detectGameSmile_try ::
  "gesture_state \<Rightarrow> landmarks option \<Rightarrow> js_error + (gesture_state \<times> bool)" where
  "detectGameSmile_try gs landmarks =
     (case landmarks of
        None \<Rightarrow> Inl TypeError
      | Some lm \<Rightarrow>
          (case (lm MOUTH_LEFT, lm MOUTH_RIGHT, lm MOUTH_TOP, lm MOUTH_BOTTOM) of
             (Some leftCorner, Some rightCorner, Some topLip, Some bottomLip) \<Rightarrow>
               (let (buffer, smoothedScore) =
                      smoothBuffer (smileBuffer gs)
                        (smileScore leftCorner rightCorner topLip bottomLip) 4;
                    gs1 = gs\<lparr>smileBuffer := buffer\<rparr>
                in if smileCooldown gs1 \<le> 0 \<and> js_gt smoothedScore (Num (28 / 100))
                   then Inr (gs1\<lparr>smileCooldown := 120, smileBuffer := []\<rparr>, True)
                   else Inr (gs1, False))
           | _ \<Rightarrow> Inr (gs, False)))"

definition detectGameSmile :: "gesture_state \<Rightarrow> landmarks option \<Rightarrow> gesture_state \<times> bool" where
  "detectGameSmile gs landmarks =
     (case detectGameSmile_try gs landmarks of
        Inl error \<Rightarrow> (gs, False)
      | Inr r \<Rightarrow> r)"

text \<open>The body of the \<open>try\<close> block of \<open>detectGameNod\<close>.\<close>

definition detectGameNod_try ::
  "gesture_state \<Rightarrow> landmarks option \<Rightarrow> js_error + (gesture_state \<times> bool)" where
  "detectGameNod_try gs landmarks =
     (case landmarks of
        None \<Rightarrow> Inl TypeError
      | Some lm \<Rightarrow>
          (case lm NOSE_TIP of
             None \<Rightarrow> Inr (gs, False)
           | Some noseTip \<Rightarrow>
               (let currentNoseY = y_coord noseTip
                in case lastNoseY gs of
                     None \<Rightarrow> Inr (gs\<lparr>lastNoseY := Some currentNoseY\<rparr>, False)
                   | Some lastY \<Rightarrow>
                       (let deltaY = js_sub currentNoseY lastY;
                            (buffer, smoothedDelta) = smoothBuffer (nodBuffer gs) deltaY 6;
                            gs1 = gs\<lparr>nodBuffer := buffer\<rparr>
                        in if nodCooldown gs1 \<le> 0 \<and> js_gt smoothedDelta (Num (3 / 1000))
                           then Inr (gs1\<lparr>nodCooldown := 45, nodBuffer := []\<rparr>, True)
                           else Inr (gs1\<lparr>lastNoseY := Some currentNoseY\<rparr>, False)))))"

definition detectGameNod :: "gesture_state \<Rightarrow> landmarks option \<Rightarrow> gesture_state \<times> bool" where
  "detectGameNod gs landmarks =
     (case detectGameNod_try gs landmarks of
        Inl error \<Rightarrow> (gs, False)
      | Inr r \<Rightarrow> r)"

section \<open>The results callback\<close>

text \<open>
  What the callback does to the outside: a call of \<open>setStatus\<close>, a \<open>CustomEvent\<close>
  dispatched on \<open>window\<close>, a line on the console. The status texts are named by
  constructors (some start with an emoji in the source).
\<close>

datatype status_text =
    SmileToStart             \<comment> \<open>SMILE TO START GAME! (Nod to drop hook)\<close>
  | ControlsActive           \<comment> \<open>Face detected - Game controls active\<close>
  | GameStartedText          \<comment> \<open>Game Started! Nod to drop hook\<close>
  | TrackingPlaying          \<comment> \<open>Face tracking: Playing - Nod to drop hook\<close>
  | TrackingSmileToStart     \<comment> \<open>Face tracking: Smile to start game\<close>
  | NoFaceDetected           \<comment> \<open>No face detected - Please look at camera\<close>
  | MediaPipeNotLoaded       \<comment> \<open>MediaPipe not loaded. Enabling keyboard/mouse controls.\<close>
  | StartingDetection        \<comment> \<open>Starting face detection for Gold Miner...\<close>
  | RequestingPermission     \<comment> \<open>Requesting camera permission...\<close>
  | CameraReady              \<comment> \<open>Camera ready. Loading face detection...\<close>
  | CameraFailed             \<comment> \<open>Camera failed: (the message of the error)\<close>
  | DetectionReady           \<comment> \<open>Face detection ready for Gold Miner!\<close>
  | DetectionUnavailable     \<comment> \<open>Face detection unavailable - Using fallback controls\<close>
  | DetectionFailed          \<comment> \<open>Face detection failed - Using keyboard/mouse\<close>

datatype event = FaceSmile | FaceNod | FaceFallback

datatype console_line = SmileDetected | NodDetected

datatype effect = SetStatus status_text | Dispatch event | ConsoleLog console_line

text \<open>
  \<open>results.multiFaceLandmarks\<close>: \<open>undefined\<close> (\<open>None\<close>) or an array with one entry for
  each face; an entry that is \<open>null\<close> is \<open>None\<close>.
\<close>

type_synonym results = "landmarks option list option"

text \<open>The blocks of the callback, in the order of the source.\<close>

definition updateFaceStatus :: "gesture_state \<Rightarrow> gesture_state \<times> effect list" where
  "updateFaceStatus gs =
     (if \<not> faceDetected gs
      then (gs\<lparr>faceDetected := True\<rparr>,
            [SetStatus (if \<not> gameStarted gs then SmileToStart else ControlsActive)])
      else (gs, []))"

definition smileGesture :: "gesture_state \<Rightarrow> landmarks option \<Rightarrow> gesture_state \<times> effect list" where
  "smileGesture gs landmarks =
     (case detectGameSmile gs landmarks of
        (gs1, True) \<Rightarrow>
          (if \<not> gameStarted gs1
           then (gs1\<lparr>gameStarted := True\<rparr>,
                 [ConsoleLog SmileDetected, SetStatus GameStartedText, Dispatch FaceSmile])
           else (gs1, [ConsoleLog SmileDetected, Dispatch FaceSmile]))
      | (gs1, False) \<Rightarrow> (gs1, []))"

definition nodGesture :: "gesture_state \<Rightarrow> landmarks option \<Rightarrow> gesture_state \<times> effect list" where
  "nodGesture gs landmarks =
     (case detectGameNod gs landmarks of
        (gs1, True) \<Rightarrow>
          (gs1, ConsoleLog NodDetected # (if gameStarted gs1 then [Dispatch FaceNod] else []))
      | (gs1, False) \<Rightarrow> (gs1, []))"

definition periodicStatus :: "gesture_state \<Rightarrow> effect list" where
  "periodicStatus gs =
     (if frameCount gs mod 150 = 0
      then [SetStatus (if gameStarted gs then TrackingPlaying else TrackingSmileToStart)]
      else [])"

definition faceLost :: "gesture_state \<Rightarrow> gesture_state \<times> effect list" where
  "faceLost gs =
     (if faceDetected gs
      then (gs\<lparr>faceDetected := False\<rparr>, [SetStatus NoFaceDetected])
      else (gs, []))"

definition updateCooldowns :: "gesture_state \<Rightarrow> gesture_state" where
  "updateCooldowns gs =
     (let gs1 = (if 0 < smileCooldown gs
                 then gs\<lparr>smileCooldown := smileCooldown gs - 1\<rparr> else gs)
      in if 0 < nodCooldown gs1 then gs1\<lparr>nodCooldown := nodCooldown gs1 - 1\<rparr> else gs1)"

text \<open>The branch of the callback taken when a face is present.\<close>

definition faceBranch :: "gesture_state \<Rightarrow> landmarks option \<Rightarrow> gesture_state \<times> effect list" where
  "faceBranch gs landmarks =
     (let (gs1, out1) = updateFaceStatus gs;
          (gs2, out2) = smileGesture gs1 landmarks;
          (gs3, out3) = nodGesture gs2 landmarks
      in (gs3, out1 @ out2 @ out3 @ periodicStatus gs3))"

text \<open>The callback registered with \<open>faceMesh.onResults\<close>: one processed frame.\<close>

definition onResults :: "gesture_state \<Rightarrow> results \<Rightarrow> gesture_state \<times> effect list" where
  "onResults gs results =
     (let gs0 = gs\<lparr>frameCount := frameCount gs + 1\<rparr>;
          (gs1, out) =
            (case results of
               Some (landmarks # others) \<Rightarrow> faceBranch gs0 landmarks
             | _ \<Rightarrow> faceLost gs0)
      in (updateCooldowns gs1, out))"

text \<open>A sequence of processed frames: the state after it, and what each frame emitted.\<close>

fun exec :: "gesture_state \<Rightarrow> results list \<Rightarrow> gesture_state" where
  "exec gs [] = gs"
| "exec gs (r # rs) = exec (fst (onResults gs r)) rs"

fun run :: "gesture_state \<Rightarrow> results list \<Rightarrow> effect list list" where
  "run gs [] = []"
| "run gs (r # rs) = snd (onResults gs r) # run (fst (onResults gs r)) rs"

text \<open>
  What a frame is seen to do: whether \<open>results\<close> carries a face, and the values that
  \<open>detectGameSmile\<close> and \<open>detectGameNod\<close> return when the callback calls them (the
  pulses; no call and no pulse on a frame without a face).
\<close>

definition facePresent :: "results \<Rightarrow> bool" where
  "facePresent results = (case results of Some (landmarks # others) \<Rightarrow> True | _ \<Rightarrow> False)"

definition smilePulse :: "gesture_state \<Rightarrow> results \<Rightarrow> bool" where
  "smilePulse gs results =
     (case results of
        Some (landmarks # others) \<Rightarrow>
          snd (detectGameSmile
                 (fst (updateFaceStatus (gs\<lparr>frameCount := frameCount gs + 1\<rparr>))) landmarks)
      | _ \<Rightarrow> False)"

definition nodPulse :: "gesture_state \<Rightarrow> results \<Rightarrow> bool" where
  "nodPulse gs results =
     (case results of
        Some (landmarks # others) \<Rightarrow>
          snd (detectGameNod
                 (fst (smileGesture
                         (fst (updateFaceStatus (gs\<lparr>frameCount := frameCount gs + 1\<rparr>)))
                         landmarks))
                 landmarks)
      | _ \<Rightarrow> False)"

text \<open>A sequence of values pushed through \<open>smoothBuffer\<close>: the buffer after the pushes.\<close>

fun pushAll :: "jsnum list \<Rightarrow> jsnum list \<Rightarrow> nat \<Rightarrow> jsnum list" where
  "pushAll buffer [] maxSize = buffer"
| "pushAll buffer (v # vs) maxSize = pushAll (fst (smoothBuffer buffer v maxSize)) vs maxSize"

section \<open>Frame processing\<close>

text \<open>
  \<open>startGameFrameProcessing\<close> holds \<open>isProcessing\<close> and \<open>frameSkipCounter\<close>. The field
  \<open>inFlight\<close> is not a variable of the source: it counts the promises returned by
  \<open>faceMesh.send\<close> that have not settled yet.
\<close>

record pacer_state =
  isProcessing :: bool
  frameSkipCounter :: nat
  inFlight :: nat

definition startGameFrameProcessing :: pacer_state where
  "startGameFrameProcessing = \<lparr>isProcessing = False, frameSkipCounter = 0, inFlight = 0\<rparr>"

text \<open>What \<open>faceMesh.send\<close> does when it is called: throw, or return a pending promise.\<close>

datatype send_outcome = SendThrows | SendPending

text \<open>
  \<open>processGameFrame\<close>, with \<open>videoEl.videoWidth\<close>, \<open>videoEl.readyState\<close> and the outcome
  of \<open>faceMesh.send\<close> at this call. The boolean tells whether \<open>faceMesh.send\<close> was
  called. On the three paths that do not leave a promise pending the source requests the
  next animation frame; on the last one the \<open>finally\<close> handler does (\<open>sendSettled\<close>).
\<close>

definition processGameFrame ::
  "pacer_state \<Rightarrow> nat \<Rightarrow> nat \<Rightarrow> send_outcome \<Rightarrow> pacer_state \<times> bool" where
  "processGameFrame s videoWidth readyState outcome =
     (let s1 = s\<lparr>frameSkipCounter := frameSkipCounter s + 1\<rparr>
      in if frameSkipCounter s1 mod 2 \<noteq> 0 then (s1, False)
         else if isProcessing s1 \<or> videoWidth = 0 \<or> readyState < 2 then (s1, False)
         else (let s2 = s1\<lparr>isProcessing := True\<rparr>
               in case outcome of
                    SendPending \<Rightarrow> (s2\<lparr>inFlight := inFlight s2 + 1\<rparr>, True)
                  | SendThrows \<Rightarrow> (s2\<lparr>isProcessing := False\<rparr>, True)))"

text \<open>The \<open>finally\<close> handler of a send, run when its promise settles either way.\<close>

definition sendSettled :: "pacer_state \<Rightarrow> pacer_state" where
  "sendSettled s = s\<lparr>isProcessing := False, inFlight := inFlight s - 1\<rparr>"

text \<open>
  The events of the loop. The host runs \<open>processGameFrame\<close> once for each animation frame
  requested; the model lets it run at any moment, which covers every schedule of the
  host. A promise can only settle while one is pending: \<open>None\<close> otherwise.
\<close>

datatype pacer_event = AnimationFrame nat nat send_outcome | SendSettled

fun pacer_step :: "pacer_state \<Rightarrow> pacer_event \<Rightarrow> pacer_state option" where
  "pacer_step s (AnimationFrame videoWidth readyState outcome) =
     Some (fst (processGameFrame s videoWidth readyState outcome))"
| "pacer_step s SendSettled = (if 0 < inFlight s then Some (sendSettled s) else None)"

fun pacer_exec :: "pacer_state \<Rightarrow> pacer_event list \<Rightarrow> pacer_state option" where
  "pacer_exec s [] = Some s"
| "pacer_exec s (e # es) =
     (case pacer_step s e of None \<Rightarrow> None | Some s' \<Rightarrow> pacer_exec s' es)"

section \<open>Startup\<close>

text \<open>
  What the page and the browser do at startup. The promise that \<open>setupGameCamera\<close> returns
  is settled by whichever comes first of: \<open>videoEl.play()\<close> fulfilled after
  \<open>onloadedmetadata\<close>, \<open>videoEl.play()\<close> rejected, \<open>videoEl.onerror\<close>, the timer of
  10000 ms.
\<close>

datatype camera_outcome =
    GetUserMediaRejected
  | PlayFulfilled
  | PlayRejected
  | VideoElementError
  | CameraSetupTimeout

record startup_env =
  videoElFound :: bool
  faceMeshDefined :: bool
  faceMeshSetupThrows :: bool
  camera :: camera_outcome

datatype camera_error = CameraError

text \<open>
  \<open>setupGameCamera\<close>. A rejection of \<open>getUserMedia\<close> is awaited inside the \<open>try\<close>: the
  \<open>catch\<close> sets the status, dispatches \<open>face:fallback\<close> and throws the error again. The
  promise built afterwards is returned without \<open>await\<close>: its rejection passes the
  \<open>catch\<close> by and reaches the caller.
\<close>

definition setupGameCamera :: "camera_outcome \<Rightarrow> effect list \<times> (camera_error + unit)" where
  "setupGameCamera outcome =
     (case outcome of
        GetUserMediaRejected \<Rightarrow>
          ([SetStatus RequestingPermission, SetStatus CameraFailed, Dispatch FaceFallback],
           Inl CameraError)
      | PlayFulfilled \<Rightarrow> ([SetStatus RequestingPermission, SetStatus CameraReady], Inr ())
      | _ \<Rightarrow> ([SetStatus RequestingPermission], Inl CameraError))"

text \<open>
  \<open>initGameFaceDetection\<close> with its \<open>.catch\<close>: what is emitted before the frame loop
  starts. An exception thrown while the face mesh is built and configured is outside the
  inner \<open>try\<close> and reaches the \<open>.catch\<close> at the end of the file.
\<close>

definition initGameFaceDetection :: "startup_env \<Rightarrow> effect list" where
  "initGameFaceDetection env =
     (if \<not> videoElFound env then []
      else if \<not> faceMeshDefined env then [SetStatus MediaPipeNotLoaded, Dispatch FaceFallback]
      else SetStatus StartingDetection #
        (if faceMeshSetupThrows env then [SetStatus DetectionFailed, Dispatch FaceFallback]
         else (case setupGameCamera (camera env) of
                 (out, Inl error) \<Rightarrow>
                   out @ [SetStatus DetectionUnavailable, Dispatch FaceFallback]
               | (out, Inr ok) \<Rightarrow> out @ [SetStatus DetectionReady])))"

section \<open>Example inputs\<close>

text \<open>
  Concrete frames for the examples. \<open>faceFrame noseY cornerY\<close> is a result with one
  face: the nose tip at height \<open>noseY\<close>, closed lips at height 3/5, and both mouth corners
  at height \<open>cornerY\<close> (the smile score is 0 for \<open>cornerY = 3/5\<close> and 4/5 for
  \<open>cornerY = 29/50\<close>).
\<close>

definition pt :: "real \<Rightarrow> real \<Rightarrow> landmark" where
  "pt a b = \<lparr>x_coord = Num a, y_coord = Num b\<rparr>"

definition faceLandmarks :: "real \<Rightarrow> real \<Rightarrow> landmarks" where
  "faceLandmarks noseY cornerY =
     [NOSE_TIP \<mapsto> pt (1 / 2) noseY,
      MOUTH_LEFT \<mapsto> pt (2 / 5) cornerY,
      MOUTH_RIGHT \<mapsto> pt (3 / 5) cornerY,
      MOUTH_TOP \<mapsto> pt (1 / 2) (3 / 5),
      MOUTH_BOTTOM \<mapsto> pt (1 / 2) (3 / 5)]"

definition faceFrame :: "real \<Rightarrow> real \<Rightarrow> results" where
  "faceFrame noseY cornerY = Some [Some (faceLandmarks noseY cornerY)]"

text \<open>
  A frame to set the nose baseline, a frame with a smile and a nod, 119 frames without a
  face, and a frame with a smile and a nod again.
\<close>

definition twoPulses :: "results list" where
  "twoPulses = [faceFrame (1 / 2) (3 / 5), faceFrame (3 / 5) (29 / 50)]
               @ replicate 119 None @ [faceFrame (7 / 10) (29 / 50)]"

text \<open>
  A smile held with the head still, and the state such a run is in while the smile
  cooldown counts down.
\<close>

definition pinnedSmile :: results where
  "pinnedSmile = faceFrame (1 / 2) (29 / 50)"

definition pinnedState :: "int \<Rightarrow> nat \<Rightarrow> gesture_state" where
  "pinnedState c k =
     \<lparr>smileBuffer = [Num (4 / 5), Num (4 / 5), Num (4 / 5), Num (4 / 5)],
      nodBuffer = [Num 0, Num 0, Num 0, Num 0, Num 0, Num 0],
      smileCooldown = c, nodCooldown = 0, lastNoseY = Some (Num (1 / 2)),
      frameCount = k, faceDetected = True, gameStarted = True\<rparr>"

text \<open>
  The invariant of the frame loop, and the number of \<open>face:fallback\<close> events in what
  startup emitted.
\<close>

definition pacer_inv :: "pacer_state \<Rightarrow> bool" where
  "pacer_inv s \<longleftrightarrow> inFlight s = (if isProcessing s then 1 else 0)"

definition fallbacks :: "effect list \<Rightarrow> nat" where
  "fallbacks out = length (filter (\<lambda>e. e = Dispatch FaceFallback) out)"

section \<open>Unfolding the model\<close>

lemmas index_defs = NOSE_TIP_def MOUTH_LEFT_def MOUTH_RIGHT_def MOUTH_TOP_def MOUTH_BOTTOM_def

lemmas frame_defs =
  onResults_def faceBranch_def updateFaceStatus_def smileGesture_def nodGesture_def
  periodicStatus_def faceLost_def updateCooldowns_def detectGameSmile_def detectGameNod_def
  detectGameSmile_try_def detectGameNod_try_def smoothBuffer_def average_def smileScore_def
  aspectRatio_def elevation_def distance_def js_sub_def

lemmas eval_defs =
  frame_defs faceFrame_def faceLandmarks_def pt_def index_defs gameGestureState_def Let_def

section \<open>The signal smoother\<close>

lemma fst_smoothBuffer:
  "fst (smoothBuffer buffer v C) = (if C < Suc (length buffer) then tl (buffer @ [v]) else buffer @ [v])"
  by (simp add: smoothBuffer_def Let_def)

lemma snd_smoothBuffer:
  "snd (smoothBuffer buffer v C) = average (fst (smoothBuffer buffer v C))"
  by (simp add: smoothBuffer_def Let_def)

lemma pushAll_window:
  "length buffer \<le> C \<Longrightarrow>
   pushAll buffer vs C = drop (length (buffer @ vs) - C) (buffer @ vs)"
proof (induction vs arbitrary: buffer)
  case Nil
  then show ?case by simp
next
  case (Cons v vs)
  show ?case
  proof (cases "length buffer < C")
    case True
    then have step: "fst (smoothBuffer buffer v C) = buffer @ [v]"
      by (simp add: fst_smoothBuffer)
    from True have "length (buffer @ [v]) \<le> C" by simp
    from Cons.IH [OF this] show ?thesis by (simp add: step)
  next
    case False
    with Cons.prems have len: "length buffer = C" by simp
    then have step: "fst (smoothBuffer buffer v C) = tl (buffer @ [v])"
      by (simp add: fst_smoothBuffer)
    have "length (tl (buffer @ [v])) \<le> C" using len by simp
    from Cons.IH [OF this]
    have "pushAll (tl (buffer @ [v])) vs C
            = drop (length vs) (tl (buffer @ [v]) @ vs)"
      using len by simp
    also have "tl (buffer @ [v]) @ vs = drop 1 (buffer @ v # vs)"
      by (cases buffer) (simp_all add: drop_Suc)
    also have "drop (length vs) (drop 1 (buffer @ v # vs))
                 = drop (Suc (length vs)) (buffer @ v # vs)"
      by (simp only: drop_drop) simp
    also have "Suc (length vs) = length (buffer @ v # vs) - C"
      using len by simp
    finally show ?thesis by (simp add: step)
  qed
qed

lemma pushAll_snoc:
  "pushAll buffer (ws @ [v]) C = fst (smoothBuffer (pushAll buffer ws C) v C)"
  by (induction ws arbitrary: buffer) simp_all

lemma foldl_js_add_Num:
  "foldl js_add (Num a) (map Num rs) = Num (a + sum_list rs)"
  by (induction rs arbitrary: a) (simp_all add: add.assoc)

lemma average_Num:
  "rs \<noteq> [] \<Longrightarrow> average (map Num rs) = Num (sum_list rs / real (length rs))"
  by (simp add: average_def foldl_js_add_Num)

text \<open>
  Claim C4. For a capacity \<open>C\<close> of at least 1 and values \<open>vs\<close>, more than \<open>C\<close> of them,
  pushed one after the other into an empty buffer: the last call of \<open>smoothBuffer\<close> leaves
  the last \<open>C\<close> values in the buffer, in their order (the oldest were shifted out), and
  returns the average of the buffer; where the values are finite numbers this is their
  sum divided by \<open>C\<close>.
\<close>

theorem smoothBuffer_fifo_mean:
  assumes "1 \<le> C" and "C < length vs"
  shows "fst (smoothBuffer (pushAll [] (butlast vs) C) (last vs) C) = drop (length vs - C) vs
       \<and> length (fst (smoothBuffer (pushAll [] (butlast vs) C) (last vs) C)) = C
       \<and> snd (smoothBuffer (pushAll [] (butlast vs) C) (last vs) C)
           = average (drop (length vs - C) vs)
       \<and> (vs = map Num rs \<longrightarrow>
            snd (smoothBuffer (pushAll [] (butlast vs) C) (last vs) C)
              = Num (sum_list (drop (length rs - C) rs) / real C))"
proof -
  let ?r = "smoothBuffer (pushAll [] (butlast vs) C) (last vs) C"
  from assms have ne: "vs \<noteq> []" by auto
  then have "fst ?r = pushAll [] (butlast vs @ [last vs]) C"
    by (simp only: pushAll_snoc)
  also have "\<dots> = pushAll [] vs C" using ne by simp
  also have "\<dots> = drop (length vs - C) vs"
    using pushAll_window [of "[]" C vs] by simp
  finally have win: "fst ?r = drop (length vs - C) vs" .
  have len: "length (fst ?r) = C" using assms by (simp add: win)
  have avg: "snd ?r = average (drop (length vs - C) vs)"
    by (simp only: snd_smoothBuffer win)
  have fin: "snd ?r = Num (sum_list (drop (length rs - C) rs) / real C)"
    if eq: "vs = map Num rs"
  proof -
    have d: "drop (length vs - C) vs = map Num (drop (length rs - C) rs)"
      by (simp add: eq drop_map)
    have l: "length (drop (length rs - C) rs) = C"
      using assms by (simp add: eq)
    then have "drop (length rs - C) rs \<noteq> []" using assms by auto
    from average_Num [OF this] have
      "average (map Num (drop (length rs - C) rs))
         = Num (sum_list (drop (length rs - C) rs) / real C)"
      by (simp only: l)
    then show ?thesis by (simp only: avg d)
  qed
  from win len avg fin show ?thesis by blast
qed

theorem smoothBuffer_fifo_mean_witness:
  "(1::nat) \<le> 2 \<and> 2 < length [Num 1, Num 2, Num 6]
   \<and> fst (smoothBuffer (pushAll [] [Num 1, Num 2] 2) (Num 6) 2) = [Num 2, Num 6]
   \<and> snd (smoothBuffer (pushAll [] [Num 1, Num 2] 2) (Num 6) 2) = Num 4"
proof -
  have h1: "(1::nat) \<le> 2" by simp
  have h2: "2 < length [Num 1, Num 2, Num 6]" by simp
  have h3: "[Num 1, Num 2, Num 6] = map Num [1, 2, 6]" by simp
  note t = smoothBuffer_fifo_mean [OF h1 h2, of "[1, 2, 6]"]
  from t have win:
    "fst (smoothBuffer (pushAll [] (butlast [Num 1, Num 2, Num 6]) 2)
            (last [Num 1, Num 2, Num 6]) 2)
       = drop (length [Num 1, Num 2, Num 6] - 2) [Num 1, Num 2, Num 6]"
    by (rule conjunct1)
  from t h3 have avg:
    "snd (smoothBuffer (pushAll [] (butlast [Num 1, Num 2, Num 6]) 2)
            (last [Num 1, Num 2, Num 6]) 2)
       = Num (sum_list (drop (length [1, 2, 6 :: real] - 2) [1, 2, 6]) / real 2)"
    by blast
  from win have "fst (smoothBuffer (pushAll [] [Num 1, Num 2] 2) (Num 6) 2) = [Num 2, Num 6]"
    by simp
  moreover from avg have "snd (smoothBuffer (pushAll [] [Num 1, Num 2] 2) (Num 6) 2) = Num 4"
    by simp
  ultimately show ?thesis using h1 h2 by blast
qed

section \<open>The smile classifier\<close>

lemma js_sub_self: "js_sub a a = Num 0 \<or> js_sub a a = NaN"
  by (cases a) (simp_all add: js_sub_def)

lemma distance_coincide:
  assumes "x_coord p = x_coord q" and "y_coord p = y_coord q"
  shows "distance (Some p) (Some q) = Num 0 \<or> distance (Some p) (Some q) = NaN"
proof -
  have "js_sub (x_coord p) (x_coord q) = Num 0 \<or> js_sub (x_coord p) (x_coord q) = NaN"
    using js_sub_self [of "x_coord q"] assms by simp
  moreover
  have "js_sub (y_coord p) (y_coord q) = Num 0 \<or> js_sub (y_coord p) (y_coord q) = NaN"
    using js_sub_self [of "y_coord q"] assms by simp
  ultimately show ?thesis
    by (auto simp: distance_def Let_def)
qed

lemma detectGameSmile_try_returns:
  "\<exists>r. detectGameSmile_try gs (Some lm) = Inr r"
  by (auto simp: detectGameSmile_try_def Let_def split: option.split prod.split)

text \<open>
  Claim C8. When the two mouth corners have the same coordinates, or their distance is 0,
  \<open>aspectRatio\<close> is the number 0 (not NaN, whatever the coordinates are, finite or not), and
  with the four mouth landmarks present the \<open>try\<close> block of \<open>detectGameSmile\<close> returns
  without throwing.
\<close>

theorem aspectRatio_zero_width:
  assumes "(x_coord leftCorner = x_coord rightCorner \<and> y_coord leftCorner = y_coord rightCorner)
           \<or> distance (Some leftCorner) (Some rightCorner) = Num 0"
  shows "aspectRatio leftCorner rightCorner topLip bottomLip = Num 0
       \<and> (lm MOUTH_LEFT = Some leftCorner \<and> lm MOUTH_RIGHT = Some rightCorner
          \<and> lm MOUTH_TOP = Some topLip \<and> lm MOUTH_BOTTOM = Some bottomLip
          \<longrightarrow> (\<exists>r. detectGameSmile_try gs (Some lm) = Inr r))"
proof -
  from assms have "distance (Some leftCorner) (Some rightCorner) = Num 0
      \<or> distance (Some leftCorner) (Some rightCorner) = NaN"
    using distance_coincide [of leftCorner rightCorner] by blast
  then have "aspectRatio leftCorner rightCorner topLip bottomLip = Num 0"
    by (auto simp: aspectRatio_def Let_def)
  then show ?thesis using detectGameSmile_try_returns by blast
qed

theorem aspectRatio_zero_width_witness:
  "x_coord (pt (2 / 5) (3 / 5)) = x_coord (pt (2 / 5) (3 / 5))
   \<and> aspectRatio (pt (2 / 5) (3 / 5)) (pt (2 / 5) (3 / 5)) (pt (1 / 2) (1 / 2)) (pt (1 / 2) (7 / 10))
       = Num 0
   \<and> (\<exists>r. detectGameSmile_try gameGestureState
              (Some [MOUTH_LEFT \<mapsto> pt (2 / 5) (3 / 5), MOUTH_RIGHT \<mapsto> pt (2 / 5) (3 / 5),
                     MOUTH_TOP \<mapsto> pt (1 / 2) (1 / 2), MOUTH_BOTTOM \<mapsto> pt (1 / 2) (7 / 10)])
            = Inr r)"
proof -
  let ?c = "pt (2 / 5) (3 / 5)"
  let ?lm = "[MOUTH_LEFT \<mapsto> ?c, MOUTH_RIGHT \<mapsto> ?c,
              MOUTH_TOP \<mapsto> pt (1 / 2) (1 / 2), MOUTH_BOTTOM \<mapsto> pt (1 / 2) (7 / 10)]"
  have h: "(x_coord ?c = x_coord ?c \<and> y_coord ?c = y_coord ?c)
           \<or> distance (Some ?c) (Some ?c) = Num 0"
    by simp
  have l: "?lm MOUTH_LEFT = Some ?c \<and> ?lm MOUTH_RIGHT = Some ?c
           \<and> ?lm MOUTH_TOP = Some (pt (1 / 2) (1 / 2))
           \<and> ?lm MOUTH_BOTTOM = Some (pt (1 / 2) (7 / 10))"
    by (simp add: index_defs)
  from aspectRatio_zero_width
         [OF h, of "pt (1 / 2) (1 / 2)" "pt (1 / 2) (7 / 10)" ?lm gameGestureState] l
  show ?thesis by blast
qed

text \<open>
  Claim C9. When one of the four mouth landmarks is missing from the landmark set,
  \<open>detectGameSmile\<close> returns \<open>false\<close> and leaves the state as it was: the smile cooldown
  and the smile buffer are unchanged.
\<close>

theorem detectGameSmile_missing_landmark:
  assumes "lm MOUTH_LEFT = None \<or> lm MOUTH_RIGHT = None
           \<or> lm MOUTH_TOP = None \<or> lm MOUTH_BOTTOM = None"
  shows "detectGameSmile gs (Some lm) = (gs, False)
       \<and> \<not> snd (detectGameSmile gs (Some lm))
       \<and> smileCooldown (fst (detectGameSmile gs (Some lm))) = smileCooldown gs
       \<and> smileBuffer (fst (detectGameSmile gs (Some lm))) = smileBuffer gs"
proof -
  from assms have "detectGameSmile gs (Some lm) = (gs, False)"
    by (auto simp: detectGameSmile_def detectGameSmile_try_def split: option.split)
  then show ?thesis by simp
qed

theorem detectGameSmile_missing_landmark_witness:
  "((faceLandmarks (1 / 2) (29 / 50))(MOUTH_RIGHT := None)) MOUTH_RIGHT = None
   \<and> detectGameSmile (pinnedState 0 120) (Some ((faceLandmarks (1 / 2) (29 / 50))(MOUTH_RIGHT := None)))
       = (pinnedState 0 120, False)
   \<and> snd (detectGameSmile (pinnedState 0 120) (Some (faceLandmarks (1 / 2) (29 / 50))))"
proof -
  let ?lm = "(faceLandmarks (1 / 2) (29 / 50))(MOUTH_RIGHT := None)"
  have h: "?lm MOUTH_LEFT = None \<or> ?lm MOUTH_RIGHT = None
           \<or> ?lm MOUTH_TOP = None \<or> ?lm MOUTH_BOTTOM = None"
    by simp
  have full: "snd (detectGameSmile (pinnedState 0 120) (Some (faceLandmarks (1 / 2) (29 / 50))))"
    by (simp add: pinnedState_def eval_defs)
  have a: "?lm MOUTH_RIGHT = None" by simp
  from detectGameSmile_missing_landmark [OF h, of "pinnedState 0 120"]
  have "detectGameSmile (pinnedState 0 120) (Some ?lm) = (pinnedState 0 120, False)"
    by (rule conjunct1)
  with a full show ?thesis by blast
qed

section \<open>The blocks of the callback\<close>

lemma detectGameSmile_other_fields:
  "nodBuffer (fst (detectGameSmile gs lm)) = nodBuffer gs"
  "nodCooldown (fst (detectGameSmile gs lm)) = nodCooldown gs"
  "lastNoseY (fst (detectGameSmile gs lm)) = lastNoseY gs"
  "frameCount (fst (detectGameSmile gs lm)) = frameCount gs"
  "faceDetected (fst (detectGameSmile gs lm)) = faceDetected gs"
  "gameStarted (fst (detectGameSmile gs lm)) = gameStarted gs"
  by (auto simp: detectGameSmile_def detectGameSmile_try_def Let_def
           split: option.split prod.split)

lemma detectGameSmile_cooldown:
  "smileCooldown (fst (detectGameSmile gs lm))
     = (if snd (detectGameSmile gs lm) then 120 else smileCooldown gs)"
  by (auto simp: detectGameSmile_def detectGameSmile_try_def Let_def
           split: option.split prod.split)

lemma detectGameSmile_fires_ready:
  "snd (detectGameSmile gs lm) \<Longrightarrow> smileCooldown gs \<le> 0"
  by (auto simp: detectGameSmile_def detectGameSmile_try_def Let_def
           split: option.splits prod.splits if_splits)

lemma detectGameNod_other_fields:
  "smileBuffer (fst (detectGameNod gs lm)) = smileBuffer gs"
  "smileCooldown (fst (detectGameNod gs lm)) = smileCooldown gs"
  "frameCount (fst (detectGameNod gs lm)) = frameCount gs"
  "faceDetected (fst (detectGameNod gs lm)) = faceDetected gs"
  "gameStarted (fst (detectGameNod gs lm)) = gameStarted gs"
  by (auto simp: detectGameNod_def detectGameNod_try_def Let_def
           split: option.split prod.split)

lemma detectGameNod_cooldown:
  "nodCooldown (fst (detectGameNod gs lm))
     = (if snd (detectGameNod gs lm) then 45 else nodCooldown gs)"
  by (auto simp: detectGameNod_def detectGameNod_try_def Let_def
           split: option.split prod.split)

lemma detectGameNod_fires_ready:
  "snd (detectGameNod gs lm) \<Longrightarrow> nodCooldown gs \<le> 0"
  by (auto simp: detectGameNod_def detectGameNod_try_def Let_def
           split: option.splits prod.splits if_splits)

lemma detectGameNod_fires_buffer:
  "snd (detectGameNod gs lm) \<Longrightarrow> nodBuffer (fst (detectGameNod gs lm)) = []"
  by (auto simp: detectGameNod_def detectGameNod_try_def Let_def
           split: option.splits prod.splits if_splits)

lemma smileGesture_fst:
  "fst (smileGesture gs lm)
     = (if snd (detectGameSmile gs lm) \<and> \<not> gameStarted gs
        then (fst (detectGameSmile gs lm))\<lparr>gameStarted := True\<rparr>
        else fst (detectGameSmile gs lm))"
  using detectGameSmile_other_fields(6) [of gs lm]
  by (auto simp: smileGesture_def split: prod.split bool.split)

lemma smileGesture_snd:
  "snd (smileGesture gs lm)
     = (if snd (detectGameSmile gs lm)
        then (if \<not> gameStarted gs
              then [ConsoleLog SmileDetected, SetStatus GameStartedText, Dispatch FaceSmile]
              else [ConsoleLog SmileDetected, Dispatch FaceSmile])
        else [])"
  using detectGameSmile_other_fields(6) [of gs lm]
  by (auto simp: smileGesture_def split: prod.split bool.split)

lemma nodGesture_fst: "fst (nodGesture gs lm) = fst (detectGameNod gs lm)"
  by (auto simp: nodGesture_def split: prod.split bool.split)

lemma nodGesture_snd:
  "snd (nodGesture gs lm)
     = (if snd (detectGameNod gs lm)
        then ConsoleLog NodDetected # (if gameStarted gs then [Dispatch FaceNod] else [])
        else [])"
  using detectGameNod_other_fields(5) [of gs lm]
  by (auto simp: nodGesture_def split: prod.split bool.split)

lemma updateFaceStatus_fst: "fst (updateFaceStatus gs) = gs\<lparr>faceDetected := True\<rparr>"
  by (simp add: updateFaceStatus_def)

lemma updateFaceStatus_snd:
  "snd (updateFaceStatus gs)
     = (if \<not> faceDetected gs
        then [SetStatus (if \<not> gameStarted gs then SmileToStart else ControlsActive)]
        else [])"
  by (simp add: updateFaceStatus_def)

lemma updateCooldowns_fields:
  "smileCooldown (updateCooldowns gs)
     = (if 0 < smileCooldown gs then smileCooldown gs - 1 else smileCooldown gs)"
  "nodCooldown (updateCooldowns gs)
     = (if 0 < nodCooldown gs then nodCooldown gs - 1 else nodCooldown gs)"
  "smileBuffer (updateCooldowns gs) = smileBuffer gs"
  "nodBuffer (updateCooldowns gs) = nodBuffer gs"
  "lastNoseY (updateCooldowns gs) = lastNoseY gs"
  "frameCount (updateCooldowns gs) = frameCount gs"
  "faceDetected (updateCooldowns gs) = faceDetected gs"
  "gameStarted (updateCooldowns gs) = gameStarted gs"
  by (simp_all add: updateCooldowns_def Let_def)

lemma onResults_face:
  "onResults gs (Some (lm # others))
     = (updateCooldowns (fst (faceBranch (gs\<lparr>frameCount := frameCount gs + 1\<rparr>) lm)),
        snd (faceBranch (gs\<lparr>frameCount := frameCount gs + 1\<rparr>) lm))"
  by (simp add: onResults_def Let_def split: prod.split)

lemma onResults_noFace:
  "\<not> facePresent r \<Longrightarrow>
   onResults gs r
     = (updateCooldowns (fst (faceLost (gs\<lparr>frameCount := frameCount gs + 1\<rparr>))),
        snd (faceLost (gs\<lparr>frameCount := frameCount gs + 1\<rparr>)))"
  by (auto simp: onResults_def facePresent_def Let_def split: option.split list.split prod.split)

lemma facePresentE:
  "facePresent r \<Longrightarrow> \<exists>lm others. r = Some (lm # others)"
  by (auto simp: facePresent_def split: option.splits list.splits)

lemma faceBranch_fst:
  "fst (faceBranch gs lm)
     = fst (detectGameNod (fst (smileGesture (gs\<lparr>faceDetected := True\<rparr>) lm)) lm)"
  by (simp add: faceBranch_def Let_def updateFaceStatus_fst [symmetric] nodGesture_fst [symmetric]
           split: prod.split)

lemma faceBranch_snd:
  "snd (faceBranch gs lm)
     = snd (updateFaceStatus gs) @ snd (smileGesture (gs\<lparr>faceDetected := True\<rparr>) lm)
       @ snd (nodGesture (fst (smileGesture (gs\<lparr>faceDetected := True\<rparr>) lm)) lm)
       @ periodicStatus (fst (faceBranch gs lm))"
  by (simp add: faceBranch_def Let_def updateFaceStatus_fst [symmetric] split: prod.split)

text \<open>
  The pulses are what the callback logs and dispatches: a smile pulse is a
  \<open>face:smile\<close> event, a nod pulse is the console line of the nod.
\<close>

lemma smile_event_iff_pulse:
  "Dispatch FaceSmile \<in> set (snd (onResults gs r)) \<longleftrightarrow> smilePulse gs r"
proof (cases "facePresent r")
  case True
  then obtain lm others where r: "r = Some (lm # others)" using facePresentE by blast
  show ?thesis
    by (simp add: r onResults_face faceBranch_snd nodGesture_snd smileGesture_snd
          smilePulse_def updateFaceStatus_fst updateFaceStatus_snd periodicStatus_def)
next
  case False
  then have "\<not> smilePulse gs r"
    by (auto simp: facePresent_def smilePulse_def split: option.splits list.splits)
  with False show ?thesis
    by (simp add: onResults_noFace faceLost_def)
qed

lemma nod_log_iff_pulse:
  "ConsoleLog NodDetected \<in> set (snd (onResults gs r)) \<longleftrightarrow> nodPulse gs r"
proof (cases "facePresent r")
  case True
  then obtain lm others where r: "r = Some (lm # others)" using facePresentE by blast
  show ?thesis
    by (simp add: r onResults_face faceBranch_snd nodGesture_snd smileGesture_snd
          nodPulse_def updateFaceStatus_fst updateFaceStatus_snd periodicStatus_def)
next
  case False
  then have "\<not> nodPulse gs r"
    by (auto simp: facePresent_def nodPulse_def split: option.splits list.splits)
  with False show ?thesis
    by (simp add: onResults_noFace faceLost_def)
qed

section \<open>Runs of frames\<close>

lemma exec_append: "exec gs (xs @ ys) = exec (exec gs xs) ys"
  by (induction xs arbitrary: gs) simp_all

lemma exec_take_Suc:
  "k < length rs \<Longrightarrow>
   exec gs (take (Suc k) rs) = fst (onResults (exec gs (take k rs)) (rs ! k))"
  by (simp add: take_Suc_conv_app_nth exec_append)

lemma length_run: "length (run gs rs) = length rs"
  by (induction rs arbitrary: gs) simp_all

lemma run_nth:
  "k < length rs \<Longrightarrow> run gs rs ! k = snd (onResults (exec gs (take k rs)) (rs ! k))"
proof (induction rs arbitrary: gs k)
  case Nil
  then show ?case by simp
next
  case (Cons r rs)
  then show ?case by (cases k) simp_all
qed

lemma noFace_frame_fields:
  assumes "\<not> facePresent r"
  shows "lastNoseY (fst (onResults gs r)) = lastNoseY gs"
    and "nodBuffer (fst (onResults gs r)) = nodBuffer gs"
    and "smileBuffer (fst (onResults gs r)) = smileBuffer gs"
    and "gameStarted (fst (onResults gs r)) = gameStarted gs"
  using assms by (simp_all add: onResults_noFace updateCooldowns_fields faceLost_def)

lemma noFace_exec_fields:
  assumes "\<forall>r\<in>set rs. \<not> facePresent r"
  shows "lastNoseY (exec gs rs) = lastNoseY gs"
    and "nodBuffer (exec gs rs) = nodBuffer gs"
    and "smileBuffer (exec gs rs) = smileBuffer gs"
    and "gameStarted (exec gs rs) = gameStarted gs"
  using assms by (induction rs arbitrary: gs) (simp_all add: noFace_frame_fields)

lemma exec_replicate_None:
  "exec gs (replicate n None)
     = gs\<lparr>smileCooldown :=
            (if 0 < smileCooldown gs then max 0 (smileCooldown gs - int n)
             else smileCooldown gs),
          nodCooldown :=
            (if 0 < nodCooldown gs then max 0 (nodCooldown gs - int n) else nodCooldown gs),
          frameCount := frameCount gs + n,
          faceDetected := (faceDetected gs \<and> n = 0)\<rparr>"
proof (induction n arbitrary: gs)
  case 0
  then show ?case by simp
next
  case (Suc n)
  have "exec gs (replicate (Suc n) None) = exec (fst (onResults gs None)) (replicate n None)"
    by simp
  also note Suc.IH
  finally show ?case
    by (cases gs)
       (auto simp: onResults_noFace facePresent_def updateCooldowns_def faceLost_def Let_def
          max_def)
qed

section \<open>Nod events\<close>

lemma gameStarted_frame:
  "gameStarted (fst (onResults gs r)) = (gameStarted gs \<or> smilePulse gs r)"
proof (cases "facePresent r")
  case True
  then obtain lm others where r: "r = Some (lm # others)" using facePresentE by blast
  show ?thesis
    by (auto simp: r onResults_face updateCooldowns_fields faceBranch_fst
          detectGameNod_other_fields smileGesture_fst detectGameSmile_other_fields
          smilePulse_def updateFaceStatus_fst)
next
  case False
  then have "\<not> smilePulse gs r"
    by (auto simp: facePresent_def smilePulse_def split: option.splits list.splits)
  with False show ?thesis
    by (simp add: onResults_noFace updateCooldowns_fields faceLost_def)
qed

lemma nod_dispatch_frame:
  "Dispatch FaceNod \<in> set (snd (onResults gs r))
     \<longleftrightarrow> nodPulse gs r \<and> gameStarted (fst (onResults gs r))"
proof (cases "facePresent r")
  case True
  then obtain lm others where r: "r = Some (lm # others)" using facePresentE by blast
  show ?thesis
    by (simp add: r onResults_face updateCooldowns_fields faceBranch_fst faceBranch_snd
          detectGameNod_other_fields nodGesture_snd smileGesture_snd
          nodPulse_def updateFaceStatus_fst updateFaceStatus_snd periodicStatus_def)
next
  case False
  then have "\<not> nodPulse gs r"
    by (auto simp: facePresent_def nodPulse_def split: option.splits list.splits)
  with False show ?thesis
    by (simp add: onResults_noFace faceLost_def)
qed

lemma nod_pulse_state:
  assumes "nodPulse gs r"
  shows "nodCooldown (fst (onResults gs r)) = 44 \<and> nodBuffer (fst (onResults gs r)) = []"
proof -
  from assms obtain lm others where r: "r = Some (lm # others)"
    by (auto simp: nodPulse_def split: option.splits list.splits)
  from assms show ?thesis
    by (simp add: r onResults_face updateCooldowns_fields faceBranch_fst
          detectGameNod_cooldown detectGameNod_fires_buffer nodPulse_def updateFaceStatus_fst)
qed

text \<open>
  Claim C6. On every processed frame a \<open>face:nod\<close> event is dispatched exactly when
  \<open>detectGameNod\<close> fires on that frame and \<open>gameStarted\<close> is true at that point (it is
  true there when it was true before the frame or the smile fired earlier in the same
  frame, and nothing changes it afterwards). A nod pulse with \<open>gameStarted\<close> false
  dispatches nothing, and has still reset the nod buffer and started the nod cooldown
  (45, decremented to 44 at the end of the frame).
\<close>

theorem nod_event_iff_pulse_and_started:
  "(Dispatch FaceNod \<in> set (snd (onResults gs r))
      \<longleftrightarrow> nodPulse gs r \<and> gameStarted (fst (onResults gs r)))
   \<and> gameStarted (fst (onResults gs r)) = (gameStarted gs \<or> smilePulse gs r)
   \<and> (nodPulse gs r \<and> \<not> gameStarted (fst (onResults gs r)) \<longrightarrow>
        Dispatch FaceNod \<notin> set (snd (onResults gs r))
        \<and> nodCooldown (fst (onResults gs r)) = 44
        \<and> nodBuffer (fst (onResults gs r)) = [])"
  using nod_dispatch_frame [of gs r] gameStarted_frame [of gs r] nod_pulse_state [of gs r]
  by blast

theorem nod_event_iff_pulse_and_started_witness:
  "nodPulse (exec gameGestureState [faceFrame (1 / 2) (3 / 5)]) (faceFrame (3 / 5) (3 / 5))
   \<and> \<not> gameStarted (exec gameGestureState [faceFrame (1 / 2) (3 / 5), faceFrame (3 / 5) (3 / 5)])
   \<and> run gameGestureState [faceFrame (1 / 2) (3 / 5), faceFrame (3 / 5) (3 / 5)] ! 1
       = [ConsoleLog NodDetected]
   \<and> nodCooldown (exec gameGestureState [faceFrame (1 / 2) (3 / 5), faceFrame (3 / 5) (3 / 5)])
       = 44"
proof -
  let ?gs = "exec gameGestureState [faceFrame (1 / 2) (3 / 5)]"
  let ?r = "faceFrame (3 / 5) (3 / 5)"
  have p: "nodPulse ?gs ?r"
    by (simp add: nodPulse_def eval_defs)
  have g: "\<not> gameStarted (fst (onResults ?gs ?r))"
    by (simp add: eval_defs)
  have out: "snd (onResults ?gs ?r) = [ConsoleLog NodDetected]"
    by (simp add: eval_defs)
  from nod_event_iff_pulse_and_started [of ?gs ?r] p g
  have "nodCooldown (fst (onResults ?gs ?r)) = 44" by blast
  with p g out show ?thesis by simp
qed

section \<open>The stored nose position\<close>

text \<open>
  Claim C1. The code at a frame where the nod fires: from the initial state, a face
  with the nose at height 1/2, then the same face with the nose at height 3/5. The nose
  tip is present and \<open>lastNoseY\<close> is recorded (1/2) when the second frame is evaluated;
  the nod fires on it, and the stored \<open>lastNoseY\<close> is still 1/2 afterwards, not 3/5:
  \<open>detectGameNod\<close> returns \<open>true\<close> before the assignment to \<open>lastNoseY\<close>.
\<close>

theorem lastNoseY_stale_after_pulse:
  "lastNoseY (exec gameGestureState [faceFrame (1 / 2) (3 / 5)]) = Some (Num (1 / 2))
   \<and> nodPulse (exec gameGestureState [faceFrame (1 / 2) (3 / 5)]) (faceFrame (3 / 5) (3 / 5))
   \<and> lastNoseY (exec gameGestureState [faceFrame (1 / 2) (3 / 5), faceFrame (3 / 5) (3 / 5)])
       = Some (Num (1 / 2))
   \<and> lastNoseY (exec gameGestureState [faceFrame (1 / 2) (3 / 5), faceFrame (3 / 5) (3 / 5)])
       \<noteq> Some (Num (3 / 5))"
  by (simp add: nodPulse_def eval_defs)

text \<open>
  What \<open>detectGameNod\<close> leaves in \<open>lastNoseY\<close> in general, with a nose tip present
  and a previous value recorded: the previous value when it fires, the current height
  when it does not.
\<close>

lemma detectGameNod_lastNoseY:
  "lm NOSE_TIP = Some noseTip \<Longrightarrow> lastNoseY gs = Some lastY \<Longrightarrow>
   lastNoseY (fst (detectGameNod gs (Some lm)))
     = (if snd (detectGameNod gs (Some lm)) then Some lastY else Some (y_coord noseTip))"
  by (auto simp: detectGameNod_def detectGameNod_try_def Let_def
           split: option.split prod.split)

section \<open>Periodic status\<close>

lemma periodic_frame:
  "(SetStatus TrackingPlaying \<in> set (snd (onResults gs r))
      \<longleftrightarrow> facePresent r \<and> frameCount (fst (onResults gs r)) mod 150 = 0
          \<and> gameStarted (fst (onResults gs r)))
   \<and> (SetStatus TrackingSmileToStart \<in> set (snd (onResults gs r))
      \<longleftrightarrow> facePresent r \<and> frameCount (fst (onResults gs r)) mod 150 = 0
          \<and> \<not> gameStarted (fst (onResults gs r)))"
proof (cases "facePresent r")
  case True
  then obtain lm others where r: "r = Some (lm # others)" using facePresentE by blast
  show ?thesis
    by (simp add: facePresent_def r onResults_face updateCooldowns_fields faceBranch_snd
          nodGesture_snd smileGesture_snd updateFaceStatus_snd periodicStatus_def)
next
  case False
  then show ?thesis
    by (simp add: onResults_noFace faceLost_def)
qed

lemma frameCount_frame: "frameCount (fst (onResults gs r)) = frameCount gs + 1"
proof (cases "facePresent r")
  case True
  then obtain lm others where r: "r = Some (lm # others)" using facePresentE by blast
  show ?thesis
    by (simp add: r onResults_face updateCooldowns_fields faceBranch_fst
          detectGameNod_other_fields smileGesture_fst detectGameSmile_other_fields)
next
  case False
  then show ?thesis
    by (simp add: onResults_noFace updateCooldowns_fields faceLost_def)
qed

lemma idle_149: "exec gameGestureState (replicate 149 None) = gameGestureState\<lparr>frameCount := 149\<rparr>"
  by (simp only: exec_replicate_None) (simp add: gameGestureState_def)

text \<open>
  Claim C5, as the code has it. The periodic status is set exactly on the frames that
  carry a face and whose frame counter (after the increment of this frame) is a multiple
  of 150; the text tells the mode, by \<open>gameStarted\<close>. A frame without a face sets no
  periodic status, whatever the counter.
\<close>

theorem periodic_status_only_with_face:
  "(SetStatus TrackingPlaying \<in> set (snd (onResults gs r))
      \<longleftrightarrow> facePresent r \<and> (frameCount gs + 1) mod 150 = 0
          \<and> gameStarted (fst (onResults gs r)))
   \<and> (SetStatus TrackingSmileToStart \<in> set (snd (onResults gs r))
      \<longleftrightarrow> facePresent r \<and> (frameCount gs + 1) mod 150 = 0
          \<and> \<not> gameStarted (fst (onResults gs r)))"
  using periodic_frame [of gs r] by (simp only: frameCount_frame)

theorem periodic_status_only_with_face_witness:
  "facePresent (faceFrame (1 / 2) (3 / 5))
   \<and> (frameCount (exec gameGestureState (replicate 149 None)) + 1) mod 150 = 0
   \<and> SetStatus TrackingSmileToStart
        \<in> set (snd (onResults (exec gameGestureState (replicate 149 None))
                       (faceFrame (1 / 2) (3 / 5))))"
proof -
  let ?gs = "exec gameGestureState (replicate 149 None)"
  let ?r = "faceFrame (1 / 2) (3 / 5)"
  have f: "facePresent ?r" by (simp add: facePresent_def faceFrame_def)
  have c: "(frameCount ?gs + 1) mod 150 = 0"
    unfolding idle_149 by (simp add: gameGestureState_def)
  have g: "\<not> gameStarted (fst (onResults ?gs ?r))"
    unfolding idle_149 by (simp add: eval_defs)
  from periodic_status_only_with_face [of ?gs ?r] f c g show ?thesis by blast
qed

text \<open>
  Claim C5 as stated fails: after 150 frames without a face the frame counter is 150,
  and the 150th frame has emitted nothing.
\<close>

theorem periodic_status_counterexample:
  "frameCount (exec gameGestureState (replicate 150 None)) mod 150 = 0
   \<and> \<not> facePresent (replicate 150 None ! 149)
   \<and> run gameGestureState (replicate 150 None) ! 149 = []"
proof -
  have a: "frameCount (exec gameGestureState (replicate 150 None)) mod 150 = 0"
    by (simp only: exec_replicate_None) (simp add: gameGestureState_def)
  have t: "take 149 (replicate 150 (None :: results)) = replicate 149 None" by simp
  have n: "replicate 150 (None :: results) ! 149 = None" by simp
  have "run gameGestureState (replicate 150 None) ! 149
      = snd (onResults (exec gameGestureState (take 149 (replicate 150 None)))
               (replicate 150 None ! 149))"
    by (rule run_nth) simp
  also have "\<dots> = []"
    unfolding t n idle_149 by (simp add: eval_defs)
  finally have b: "run gameGestureState (replicate 150 None) ! 149 = []" .
  from a b n show ?thesis by (simp add: facePresent_def)
qed

section \<open>Cooldowns\<close>

lemma smilePulse_ready: "smilePulse gs r \<Longrightarrow> smileCooldown gs \<le> 0"
  by (auto simp: smilePulse_def updateFaceStatus_fst split: option.splits list.splits
           dest!: detectGameSmile_fires_ready)

lemma nodPulse_ready: "nodPulse gs r \<Longrightarrow> nodCooldown gs \<le> 0"
  by (auto simp: nodPulse_def updateFaceStatus_fst smileGesture_fst
             detectGameSmile_other_fields
           split: option.splits list.splits if_splits
           dest!: detectGameNod_fires_ready)

lemma smileCooldown_frame:
  "smileCooldown (fst (onResults gs r))
     = (if smilePulse gs r then 119
        else if 0 < smileCooldown gs then smileCooldown gs - 1 else smileCooldown gs)"
proof (cases "facePresent r")
  case True
  then obtain lm others where r: "r = Some (lm # others)" using facePresentE by blast
  show ?thesis
    by (simp add: r onResults_face updateCooldowns_fields faceBranch_fst
          detectGameNod_other_fields smileGesture_fst detectGameSmile_cooldown
          smilePulse_def updateFaceStatus_fst)
next
  case False
  then have "\<not> smilePulse gs r"
    by (auto simp: facePresent_def smilePulse_def split: option.splits list.splits)
  with False show ?thesis
    by (simp add: onResults_noFace updateCooldowns_fields faceLost_def)
qed

lemma nodCooldown_frame:
  "nodCooldown (fst (onResults gs r))
     = (if nodPulse gs r then 44
        else if 0 < nodCooldown gs then nodCooldown gs - 1 else nodCooldown gs)"
proof (cases "facePresent r")
  case True
  then obtain lm others where r: "r = Some (lm # others)" using facePresentE by blast
  show ?thesis
    by (simp add: r onResults_face updateCooldowns_fields faceBranch_fst
          detectGameNod_cooldown smileGesture_fst detectGameSmile_other_fields
          nodPulse_def updateFaceStatus_fst)
next
  case False
  then have "\<not> nodPulse gs r"
    by (auto simp: facePresent_def nodPulse_def split: option.splits list.splits)
  with False show ?thesis
    by (simp add: onResults_noFace updateCooldowns_fields faceLost_def)
qed

lemma smileCooldown_step_lower:
  "smileCooldown gs - 1 \<le> smileCooldown (fst (onResults gs r))"
  using smilePulse_ready [of gs r] by (auto simp: smileCooldown_frame)

lemma nodCooldown_step_lower:
  "nodCooldown gs - 1 \<le> nodCooldown (fst (onResults gs r))"
  using nodPulse_ready [of gs r] by (auto simp: nodCooldown_frame)

lemma smileCooldown_after_pulse:
  assumes "smilePulse (exec gs (take i rs)) (rs ! i)" and "i + d < length rs"
  shows "119 - int d \<le> smileCooldown (exec gs (take (Suc (i + d)) rs))"
  using assms(2)
proof (induction d)
  case 0
  then show ?case using assms(1) by (simp add: exec_take_Suc smileCooldown_frame)
next
  case (Suc d)
  then have "119 - int d \<le> smileCooldown (exec gs (take (Suc (i + d)) rs))" by simp
  moreover have "exec gs (take (Suc (i + Suc d)) rs)
      = fst (onResults (exec gs (take (Suc (i + d)) rs)) (rs ! Suc (i + d)))"
    using Suc.prems exec_take_Suc [of "Suc (i + d)" rs gs] by simp
  ultimately show ?case
    using smileCooldown_step_lower
            [of "exec gs (take (Suc (i + d)) rs)" "rs ! Suc (i + d)"]
    by simp
qed

lemma nodCooldown_after_pulse:
  assumes "nodPulse (exec gs (take i rs)) (rs ! i)" and "i + d < length rs"
  shows "44 - int d \<le> nodCooldown (exec gs (take (Suc (i + d)) rs))"
  using assms(2)
proof (induction d)
  case 0
  then show ?case using assms(1) by (simp add: exec_take_Suc nodCooldown_frame)
next
  case (Suc d)
  then have "44 - int d \<le> nodCooldown (exec gs (take (Suc (i + d)) rs))" by simp
  moreover have "exec gs (take (Suc (i + Suc d)) rs)
      = fst (onResults (exec gs (take (Suc (i + d)) rs)) (rs ! Suc (i + d)))"
    using Suc.prems exec_take_Suc [of "Suc (i + d)" rs gs] by simp
  ultimately show ?case
    using nodCooldown_step_lower
            [of "exec gs (take (Suc (i + d)) rs)" "rs ! Suc (i + d)"]
    by simp
qed

lemma smile_gap:
  assumes "i < j" and "j < length rs"
    and "smilePulse (exec gs (take i rs)) (rs ! i)"
    and "smilePulse (exec gs (take j rs)) (rs ! j)"
  shows "i + 120 \<le> j"
proof -
  from assms(1) obtain d where j: "j = Suc (i + d)" using less_imp_Suc_add by blast
  with assms(2) have "i + d < length rs" by simp
  from smileCooldown_after_pulse [OF assms(3) this]
  have "119 - int d \<le> smileCooldown (exec gs (take j rs))" by (simp add: j)
  moreover from assms(4) have "smileCooldown (exec gs (take j rs)) \<le> 0"
    by (rule smilePulse_ready)
  ultimately show ?thesis using j by simp
qed

lemma nod_gap:
  assumes "i < j" and "j < length rs"
    and "nodPulse (exec gs (take i rs)) (rs ! i)"
    and "nodPulse (exec gs (take j rs)) (rs ! j)"
  shows "i + 45 \<le> j"
proof -
  from assms(1) obtain d where j: "j = Suc (i + d)" using less_imp_Suc_add by blast
  with assms(2) have "i + d < length rs" by simp
  from nodCooldown_after_pulse [OF assms(3) this]
  have "44 - int d \<le> nodCooldown (exec gs (take j rs))" by (simp add: j)
  moreover from assms(4) have "nodCooldown (exec gs (take j rs)) \<le> 0"
    by (rule nodPulse_ready)
  ultimately show ?thesis using j by simp
qed

lemma cooldowns_nonneg_frame:
  "0 \<le> smileCooldown gs \<Longrightarrow> 0 \<le> smileCooldown (fst (onResults gs r))"
  "0 \<le> nodCooldown gs \<Longrightarrow> 0 \<le> nodCooldown (fst (onResults gs r))"
  by (simp_all add: smileCooldown_frame nodCooldown_frame)

lemma cooldowns_nonneg_exec:
  "0 \<le> smileCooldown gs \<Longrightarrow> 0 \<le> smileCooldown (exec gs rs)"
  "0 \<le> nodCooldown gs \<Longrightarrow> 0 \<le> nodCooldown (exec gs rs)"
  by (induction rs arbitrary: gs) (simp_all add: cooldowns_nonneg_frame)

text \<open>
  Claim C3. In every run of frames \<open>rs\<close> from every state, with frames \<open>i < j\<close>: two
  smile pulses are at least 120 frames apart and two nod pulses at least 45, whatever the
  landmarks of the frames in between; a classifier fires only with its cooldown at 0 (not
  above 0 from any state, exactly 0 when the run started with a counter that was not
  negative, as the initial state has it); and each processed frame leaves the counter at
  119 (44 for the nod) when the classifier fired, one lower when it was above 0, and
  unchanged at 0 otherwise.
\<close>

theorem cooldown_gating:
  assumes "i < j" and "j < length rs"
  shows "(smilePulse (exec gs (take i rs)) (rs ! i) \<and> smilePulse (exec gs (take j rs)) (rs ! j)
            \<longrightarrow> i + 120 \<le> j)
       \<and> (nodPulse (exec gs (take i rs)) (rs ! i) \<and> nodPulse (exec gs (take j rs)) (rs ! j)
            \<longrightarrow> i + 45 \<le> j)
       \<and> (smilePulse (exec gs (take j rs)) (rs ! j)
            \<longrightarrow> smileCooldown (exec gs (take j rs)) \<le> 0
              \<and> (0 \<le> smileCooldown gs \<longrightarrow> smileCooldown (exec gs (take j rs)) = 0))
       \<and> (nodPulse (exec gs (take j rs)) (rs ! j)
            \<longrightarrow> nodCooldown (exec gs (take j rs)) \<le> 0
              \<and> (0 \<le> nodCooldown gs \<longrightarrow> nodCooldown (exec gs (take j rs)) = 0))
       \<and> smileCooldown (exec gs (take (Suc j) rs))
           = (if smilePulse (exec gs (take j rs)) (rs ! j) then 119
              else if 0 < smileCooldown (exec gs (take j rs))
                   then smileCooldown (exec gs (take j rs)) - 1
                   else smileCooldown (exec gs (take j rs)))
       \<and> nodCooldown (exec gs (take (Suc j) rs))
           = (if nodPulse (exec gs (take j rs)) (rs ! j) then 44
              else if 0 < nodCooldown (exec gs (take j rs))
                   then nodCooldown (exec gs (take j rs)) - 1
                   else nodCooldown (exec gs (take j rs)))"
proof -
  have a: "smilePulse (exec gs (take i rs)) (rs ! i) \<and> smilePulse (exec gs (take j rs)) (rs ! j)
            \<longrightarrow> i + 120 \<le> j"
    using smile_gap [OF assms] by blast
  have b: "nodPulse (exec gs (take i rs)) (rs ! i) \<and> nodPulse (exec gs (take j rs)) (rs ! j)
            \<longrightarrow> i + 45 \<le> j"
    using nod_gap [OF assms] by blast
  have c: "smilePulse (exec gs (take j rs)) (rs ! j)
            \<longrightarrow> smileCooldown (exec gs (take j rs)) \<le> 0
              \<and> (0 \<le> smileCooldown gs \<longrightarrow> smileCooldown (exec gs (take j rs)) = 0)"
    using smilePulse_ready [of "exec gs (take j rs)" "rs ! j"]
      cooldowns_nonneg_exec(1) [of gs "take j rs"] by auto
  have d: "nodPulse (exec gs (take j rs)) (rs ! j)
            \<longrightarrow> nodCooldown (exec gs (take j rs)) \<le> 0
              \<and> (0 \<le> nodCooldown gs \<longrightarrow> nodCooldown (exec gs (take j rs)) = 0)"
    using nodPulse_ready [of "exec gs (take j rs)" "rs ! j"]
      cooldowns_nonneg_exec(2) [of gs "take j rs"] by auto
  have e: "smileCooldown (exec gs (take (Suc j) rs))
           = (if smilePulse (exec gs (take j rs)) (rs ! j) then 119
              else if 0 < smileCooldown (exec gs (take j rs))
                   then smileCooldown (exec gs (take j rs)) - 1
                   else smileCooldown (exec gs (take j rs)))"
    by (simp only: exec_take_Suc [OF assms(2)] smileCooldown_frame)
  have f: "nodCooldown (exec gs (take (Suc j) rs))
           = (if nodPulse (exec gs (take j rs)) (rs ! j) then 44
              else if 0 < nodCooldown (exec gs (take j rs))
                   then nodCooldown (exec gs (take j rs)) - 1
                   else nodCooldown (exec gs (take j rs)))"
    by (simp only: exec_take_Suc [OF assms(2)] nodCooldown_frame)
  from a b c d e f show ?thesis by (intro conjI)
qed

text \<open>
  Two runs where it applies: \<open>twoPulses\<close>, where the smile and the nod fire at frames 1
  and 121, and a smile held for 121 frames, which fires at frame 0 and again at frame 120.
\<close>

lemma twoPulses_facts:
  "length twoPulses = 122"
  "take 1 twoPulses = [faceFrame (1 / 2) (3 / 5)]"
  "twoPulses ! 1 = faceFrame (3 / 5) (29 / 50)"
  "take 121 twoPulses = [faceFrame (1 / 2) (3 / 5), faceFrame (3 / 5) (29 / 50)] @ replicate 119 None"
  "twoPulses ! 121 = faceFrame (7 / 10) (29 / 50)"
  by (simp_all add: twoPulses_def nth_append)

lemma twoPulses_state1:
  "exec gameGestureState [faceFrame (1 / 2) (3 / 5)]
     = gameGestureState\<lparr>lastNoseY := Some (Num (1 / 2)), frameCount := 1, faceDetected := True,
         smileBuffer := [Num 0]\<rparr>"
  by (simp add: eval_defs)

lemma twoPulses_state2:
  "exec gameGestureState [faceFrame (1 / 2) (3 / 5), faceFrame (3 / 5) (29 / 50)]
     = gameGestureState\<lparr>lastNoseY := Some (Num (1 / 2)), frameCount := 2, faceDetected := True,
         gameStarted := True, smileCooldown := 119, nodCooldown := 44\<rparr>"
  by (simp add: eval_defs)

lemma twoPulses_state121:
  "exec gameGestureState (take 121 twoPulses)
     = gameGestureState\<lparr>lastNoseY := Some (Num (1 / 2)), frameCount := 121,
         gameStarted := True\<rparr>"
  by (simp only: twoPulses_facts exec_append twoPulses_state2 exec_replicate_None)
     (simp add: gameGestureState_def)

lemma pinned_step:
  "0 < c \<Longrightarrow> fst (onResults (pinnedState c k) pinnedSmile) = pinnedState (c - 1) (Suc k)"
  by (simp add: pinnedState_def pinnedSmile_def eval_defs)

lemma pinned_exec:
  "int n \<le> c \<Longrightarrow>
   exec (pinnedState c k) (replicate n pinnedSmile) = pinnedState (c - int n) (k + n)"
proof (induction n arbitrary: c k)
  case 0
  then show ?case by simp
next
  case (Suc n)
  then have "0 < c" and "int n \<le> c - 1" by simp_all
  then show ?case using Suc.IH [of "c - 1" "Suc k"] by (simp add: pinned_step diff_diff_eq)
qed

lemma pinned_start:
  "exec gameGestureState (replicate 7 pinnedSmile) = pinnedState 113 7"
proof -
  have "replicate 7 pinnedSmile
      = [pinnedSmile, pinnedSmile, pinnedSmile, pinnedSmile, pinnedSmile, pinnedSmile,
         pinnedSmile]"
    by (simp add: numeral_eq_Suc)
  then show ?thesis
    by (simp add: pinnedState_def pinnedSmile_def eval_defs)
qed

lemma pinned_120:
  "exec gameGestureState (replicate 120 pinnedSmile) = pinnedState 0 120"
proof -
  have "replicate 120 pinnedSmile = replicate 7 pinnedSmile @ replicate 113 pinnedSmile"
    by (simp add: replicate_add [symmetric])
  then show ?thesis
    using pinned_exec [of 113 113 7] by (simp add: exec_append pinned_start)
qed

lemma pinned_pulses:
  "smilePulse gameGestureState pinnedSmile"
  "smilePulse (pinnedState 0 120) pinnedSmile"
  by (simp_all add: smilePulse_def pinnedState_def pinnedSmile_def eval_defs)

theorem cooldown_gating_witness:
  "(1::nat) < 121 \<and> 121 < length twoPulses
   \<and> smilePulse (exec gameGestureState (take 1 twoPulses)) (twoPulses ! 1)
   \<and> smilePulse (exec gameGestureState (take 121 twoPulses)) (twoPulses ! 121)
   \<and> nodPulse (exec gameGestureState (take 1 twoPulses)) (twoPulses ! 1)
   \<and> nodPulse (exec gameGestureState (take 121 twoPulses)) (twoPulses ! 121)
   \<and> smileCooldown (exec gameGestureState (take 121 twoPulses)) = 0
   \<and> nodCooldown (exec gameGestureState (take 121 twoPulses)) = 0
   \<and> smileCooldown (exec gameGestureState (take (Suc 121) twoPulses)) = 119
   \<and> nodCooldown (exec gameGestureState (take (Suc 121) twoPulses)) = 44
   \<and> (0::nat) < 120 \<and> 120 < length (replicate 121 pinnedSmile)
   \<and> smilePulse (exec gameGestureState (take 0 (replicate 121 pinnedSmile)))
        (replicate 121 pinnedSmile ! 0)
   \<and> smilePulse (exec gameGestureState (take 120 (replicate 121 pinnedSmile)))
        (replicate 121 pinnedSmile ! 120)
   \<and> smileCooldown (exec gameGestureState (take 120 (replicate 121 pinnedSmile))) = 0"
proof -
  have h1: "(1::nat) < 121" by simp
  have h2: "121 < length twoPulses" by (simp add: twoPulses_facts)
  have s1: "smilePulse (exec gameGestureState (take 1 twoPulses)) (twoPulses ! 1)"
    by (simp only: twoPulses_facts twoPulses_state1) (simp add: smilePulse_def eval_defs)
  have n1: "nodPulse (exec gameGestureState (take 1 twoPulses)) (twoPulses ! 1)"
    by (simp only: twoPulses_facts twoPulses_state1) (simp add: nodPulse_def eval_defs)
  have s2: "smilePulse (exec gameGestureState (take 121 twoPulses)) (twoPulses ! 121)"
    unfolding twoPulses_state121 twoPulses_facts(5) by (simp add: smilePulse_def eval_defs)
  have n2: "nodPulse (exec gameGestureState (take 121 twoPulses)) (twoPulses ! 121)"
    unfolding twoPulses_state121 twoPulses_facts(5) by (simp add: nodPulse_def eval_defs)
  have z: "(0::int) \<le> smileCooldown gameGestureState" "(0::int) \<le> nodCooldown gameGestureState"
    by (simp_all add: gameGestureState_def)
  from cooldown_gating [OF h1 h2, of gameGestureState] s1 n1 s2 n2 z h1 h2
  have two: "(1::nat) < 121 \<and> 121 < length twoPulses
   \<and> smilePulse (exec gameGestureState (take 1 twoPulses)) (twoPulses ! 1)
   \<and> smilePulse (exec gameGestureState (take 121 twoPulses)) (twoPulses ! 121)
   \<and> nodPulse (exec gameGestureState (take 1 twoPulses)) (twoPulses ! 1)
   \<and> nodPulse (exec gameGestureState (take 121 twoPulses)) (twoPulses ! 121)
   \<and> smileCooldown (exec gameGestureState (take 121 twoPulses)) = 0
   \<and> nodCooldown (exec gameGestureState (take 121 twoPulses)) = 0
   \<and> smileCooldown (exec gameGestureState (take (Suc 121) twoPulses)) = 119
   \<and> nodCooldown (exec gameGestureState (take (Suc 121) twoPulses)) = 44"
    by simp
  have k1: "(0::nat) < 120" by simp
  have k2: "120 < length (replicate 121 pinnedSmile)" by simp
  have p1: "smilePulse (exec gameGestureState (take 0 (replicate 121 pinnedSmile)))
              (replicate 121 pinnedSmile ! 0)"
    by (simp add: pinned_pulses)
  have p2: "smilePulse (exec gameGestureState (take 120 (replicate 121 pinnedSmile)))
              (replicate 121 pinnedSmile ! 120)"
    by (simp add: pinned_120 pinned_pulses)
  from cooldown_gating [OF k1 k2, of gameGestureState] p2 z
  have p3: "smileCooldown (exec gameGestureState (take 120 (replicate 121 pinnedSmile))) = 0"
    by blast
  from two k1 k2 p1 p2 p3 show ?thesis by blast
qed

section \<open>The nose baseline across a lost face\<close>

lemma detectGameNod_lastNoseY_kept:
  "lastNoseY gs \<noteq> None \<Longrightarrow> lastNoseY (fst (detectGameNod gs lm)) \<noteq> None"
  by (auto simp: detectGameNod_def detectGameNod_try_def Let_def
           split: option.split prod.split)

lemma detectGameNod_lastNoseY_set:
  "lm NOSE_TIP = Some noseTip \<Longrightarrow> lastNoseY (fst (detectGameNod gs (Some lm))) \<noteq> None"
  by (auto simp: detectGameNod_def detectGameNod_try_def Let_def
           split: option.split prod.split)

lemma detectGameNod_snd:
  "lm NOSE_TIP = Some noseTip \<Longrightarrow> lastNoseY gs = Some lastY \<Longrightarrow>
   snd (detectGameNod gs (Some lm))
     = (nodCooldown gs \<le> 0
        \<and> js_gt (snd (smoothBuffer (nodBuffer gs) (js_sub (y_coord noseTip) lastY) 6))
                (Num (3 / 1000)))"
  by (auto simp: detectGameNod_def detectGameNod_try_def Let_def
           split: option.split prod.split)

lemma lastNoseY_frame_kept:
  "lastNoseY gs \<noteq> None \<Longrightarrow> lastNoseY (fst (onResults gs r)) \<noteq> None"
proof (cases "facePresent r")
  case True
  assume a: "lastNoseY gs \<noteq> None"
  from True obtain lm others where r: "r = Some (lm # others)" using facePresentE by blast
  have "lastNoseY (fst (smileGesture (gs\<lparr>frameCount := frameCount gs + 1,
           faceDetected := True\<rparr>) lm)) \<noteq> None"
    using a by (simp add: smileGesture_fst detectGameSmile_other_fields)
  then show ?thesis
    by (simp add: r onResults_face updateCooldowns_fields faceBranch_fst
          detectGameNod_lastNoseY_kept)
next
  case False
  assume "lastNoseY gs \<noteq> None"
  with False show ?thesis by (simp add: noFace_frame_fields)
qed

lemma lastNoseY_exec_kept:
  "lastNoseY gs \<noteq> None \<Longrightarrow> lastNoseY (exec gs rs) \<noteq> None"
proof (induction rs arbitrary: gs)
  case Nil
  then show ?case by simp
next
  case (Cons r rs)
  from Cons.prems have "lastNoseY (fst (onResults gs r)) \<noteq> None"
    by (rule lastNoseY_frame_kept)
  from Cons.IH [OF this] show ?case by simp
qed

lemma detectGameNod_no_noseTip:
  "lm NOSE_TIP = None \<Longrightarrow> detectGameNod gs (Some lm) = (gs, False)"
  by (simp add: detectGameNod_def detectGameNod_try_def)

lemma detectGameNod_null: "detectGameNod gs None = (gs, False)"
  by (simp add: detectGameNod_def detectGameNod_try_def)

lemma nodPulse_reacquired:
  assumes "\<forall>r\<in>set rs. \<not> facePresent r"
    and "lastNoseY gs = Some lastY" and "lm NOSE_TIP = Some noseTip"
  shows "nodPulse (exec gs rs) (Some (Some lm # others))
     = (nodCooldown (exec gs rs) \<le> 0
        \<and> js_gt (snd (smoothBuffer (nodBuffer gs) (js_sub (y_coord noseTip) lastY) 6))
                (Num (3 / 1000)))"
proof -
  let ?t = "fst (smileGesture (fst (updateFaceStatus
               ((exec gs rs)\<lparr>frameCount := frameCount (exec gs rs) + 1\<rparr>))) (Some lm))"
  have l: "lastNoseY ?t = Some lastY"
    using assms(2) noFace_exec_fields(1) [OF assms(1), of gs]
    by (simp add: smileGesture_fst detectGameSmile_other_fields updateFaceStatus_fst)
  have b: "nodBuffer ?t = nodBuffer gs"
    using noFace_exec_fields(2) [OF assms(1), of gs]
    by (simp add: smileGesture_fst detectGameSmile_other_fields updateFaceStatus_fst)
  have c: "nodCooldown ?t = nodCooldown (exec gs rs)"
    by (simp add: smileGesture_fst detectGameSmile_other_fields updateFaceStatus_fst)
  have "nodPulse (exec gs rs) (Some (Some lm # others)) = snd (detectGameNod ?t (Some lm))"
    by (simp add: nodPulse_def)
  also have "\<dots> = (nodCooldown ?t \<le> 0
        \<and> js_gt (snd (smoothBuffer (nodBuffer ?t) (js_sub (y_coord noseTip) lastY) 6))
                (Num (3 / 1000)))"
    by (rule detectGameNod_snd [of lm noseTip ?t lastY, OF assms(3) l])
  finally show ?thesis by (simp only: b c)
qed

text \<open>
  Claim C10, as the code has it. \<open>lastNoseY\<close> stays \<open>null\<close> until the first call of
  \<open>detectGameNod\<close> that sees a nose tip: a call with the nose tip missing, or with a
  landmark set that is \<open>null\<close>, returns \<open>false\<close> and leaves the state as it was; a call
  that sees a nose tip leaves \<open>lastNoseY\<close> set. Once \<open>lastNoseY\<close> holds a value, no run
  of frames makes it \<open>null\<close> again, and frames without a face leave it as it is. So on
  the first frame with a face after frames without one, with a value stored and the nose
  tip present, the nod fires exactly when the nod cooldown is at 0 and the average of the
  old nod buffer with the difference between the new nose height and the height stored
  before the face was lost exceeds 0.003.
\<close>

theorem lastNoseY_survives_face_loss:
  "(lastNoseY gs \<noteq> None \<longrightarrow> lastNoseY (exec gs rs) \<noteq> None)
   \<and> (lm NOSE_TIP = Some noseTip \<longrightarrow>
        lastNoseY (fst (detectGameNod gs (Some lm))) \<noteq> None)
   \<and> ((\<forall>r\<in>set rs. \<not> facePresent r) \<longrightarrow> lastNoseY (exec gs rs) = lastNoseY gs)
   \<and> ((\<forall>r\<in>set rs. \<not> facePresent r) \<and> lastNoseY gs = Some lastY
        \<and> lm NOSE_TIP = Some noseTip \<longrightarrow>
        nodPulse (exec gs rs) (Some (Some lm # others))
          = (nodCooldown (exec gs rs) \<le> 0
             \<and> js_gt (snd (smoothBuffer (nodBuffer gs) (js_sub (y_coord noseTip) lastY) 6))
                     (Num (3 / 1000))))
   \<and> (lm NOSE_TIP = None \<longrightarrow> detectGameNod gs (Some lm) = (gs, False))
   \<and> detectGameNod gs None = (gs, False)"
  using lastNoseY_exec_kept [of gs rs] detectGameNod_lastNoseY_set [of lm noseTip gs]
    noFace_exec_fields(1) [of rs gs] nodPulse_reacquired [of rs gs lastY lm noseTip others]
    detectGameNod_no_noseTip [of lm gs] detectGameNod_null [of gs]
  by blast

theorem lastNoseY_survives_face_loss_witness:
  "lastNoseY (exec gameGestureState [faceFrame (1 / 2) (3 / 5)]) = Some (Num (1 / 2))
   \<and> \<not> facePresent None \<and> \<not> facePresent (Some [])
   \<and> faceLandmarks (3 / 5) (3 / 5) NOSE_TIP = Some (pt (1 / 2) (3 / 5))
   \<and> lastNoseY (exec (exec gameGestureState [faceFrame (1 / 2) (3 / 5)]) [None, Some [], None])
       = Some (Num (1 / 2))
   \<and> nodPulse (exec (exec gameGestureState [faceFrame (1 / 2) (3 / 5)]) [None, Some [], None])
        (faceFrame (3 / 5) (3 / 5))"
proof -
  let ?gs = "exec gameGestureState [faceFrame (1 / 2) (3 / 5)]"
  let ?rs = "[None, Some [], None] :: results list"
  let ?lm = "faceLandmarks (3 / 5) (3 / 5)"
  have l: "lastNoseY ?gs = Some (Num (1 / 2))" by (simp add: eval_defs)
  have n: "\<forall>r\<in>set ?rs. \<not> facePresent r" by (simp add: facePresent_def)
  have t: "?lm NOSE_TIP = Some (pt (1 / 2) (3 / 5))"
    by (simp add: faceLandmarks_def index_defs)
  have c: "nodCooldown (exec ?gs ?rs) \<le> 0" by (simp add: eval_defs)
  have b: "js_gt (snd (smoothBuffer (nodBuffer ?gs)
                    (js_sub (y_coord (pt (1 / 2) (3 / 5))) (Num (1 / 2))) 6)) (Num (3 / 1000))"
    by (simp add: eval_defs)
  note inst = lastNoseY_survives_face_loss
               [of ?gs ?rs ?lm "pt (1 / 2) (3 / 5)" "Num (1 / 2)" "[]"]
  from inst l n have keep: "lastNoseY (exec ?gs ?rs) = Some (Num (1 / 2))" by simp
  from inst l n t c b have "nodPulse (exec ?gs ?rs) (Some [Some ?lm])" by blast
  then have "nodPulse (exec ?gs ?rs) (faceFrame (3 / 5) (3 / 5))"
    by (simp only: faceFrame_def)
  moreover have "\<not> facePresent None \<and> \<not> facePresent (Some [])"
    by (simp add: facePresent_def)
  ultimately show ?thesis using l t keep by blast
qed

text \<open>
  Claim C10 as stated fails in its first part: two frames with a face whose landmark set
  has no nose tip are two nod evaluations, and \<open>lastNoseY\<close> is still \<open>null\<close> after them.
  When that face is lost and a face with a nose tip comes back, the frame sets a fresh
  baseline and does not fire.
\<close>

theorem lastNoseY_null_after_nod_evaluations:
  "facePresent (Some [Some Map.empty])
   \<and> lastNoseY (exec gameGestureState [Some [Some Map.empty], Some [Some Map.empty]]) = None
   \<and> lastNoseY (exec gameGestureState [Some [None]]) = None
   \<and> \<not> nodPulse (exec gameGestureState [Some [Some Map.empty], Some [Some Map.empty], None])
          (faceFrame (3 / 5) (3 / 5))
   \<and> lastNoseY (exec gameGestureState
          [Some [Some Map.empty], Some [Some Map.empty], None, faceFrame (3 / 5) (3 / 5)])
       = Some (Num (3 / 5))"
  by (simp add: facePresent_def nodPulse_def eval_defs)

section \<open>The frame loop never overlaps two sends\<close>

lemma pacer_inv_start: "pacer_inv startGameFrameProcessing"
  by (simp add: pacer_inv_def startGameFrameProcessing_def)

lemma pacer_inv_step:
  "pacer_inv s \<Longrightarrow> pacer_step s e = Some s' \<Longrightarrow> pacer_inv s'"
  by (cases e)
     (auto simp: pacer_inv_def processGameFrame_def sendSettled_def Let_def
           split: if_splits send_outcome.splits)

lemma pacer_inv_exec:
  "pacer_inv s \<Longrightarrow> pacer_exec s es = Some s' \<Longrightarrow> pacer_inv s'"
proof (induction es arbitrary: s)
  case Nil
  then show ?case by simp
next
  case (Cons e es)
  from Cons.prems(2) obtain s1 where s1: "pacer_step s e = Some s1"
    and rest: "pacer_exec s1 es = Some s'"
    by (auto split: option.splits)
  from Cons.prems(1) s1 have "pacer_inv s1" by (rule pacer_inv_step)
  from Cons.IH [OF this rest] show ?case .
qed

lemma processGameFrame_sends:
  "snd (processGameFrame s w rdy outcome) \<Longrightarrow> \<not> isProcessing s"
  by (auto simp: processGameFrame_def Let_def split: if_splits send_outcome.splits)

text \<open>
  Claim C7. In every state the frame loop reaches, by any sequence of animation frames
  and settled sends, at most one send is in flight; a call of \<open>processGameFrame\<close> that
  calls \<open>faceMesh.send\<close> starts with none in flight; and while one is in flight, a call
  of \<open>processGameFrame\<close> sends nothing, however long the send takes to settle.
\<close>

theorem pacer_no_overlap:
  assumes "pacer_exec startGameFrameProcessing es = Some s"
  shows "inFlight s \<le> 1
       \<and> (snd (processGameFrame s videoWidth readyState outcome) \<longrightarrow> inFlight s = 0)
       \<and> (0 < inFlight s \<longrightarrow>
            \<not> snd (processGameFrame s videoWidth readyState outcome)
            \<and> inFlight (fst (processGameFrame s videoWidth readyState outcome)) = inFlight s)"
proof -
  from pacer_inv_start assms have inv: "pacer_inv s" by (rule pacer_inv_exec)
  then have a: "inFlight s \<le> 1" by (simp add: pacer_inv_def)
  have b: "inFlight s = 0" if "snd (processGameFrame s videoWidth readyState outcome)"
    using processGameFrame_sends [OF that] inv by (simp add: pacer_inv_def)
  have c: "inFlight (fst (processGameFrame s videoWidth readyState outcome)) = inFlight s"
    if "0 < inFlight s"
  proof -
    from that inv have "isProcessing s" by (auto simp: pacer_inv_def split: if_splits)
    then show ?thesis by (simp add: processGameFrame_def Let_def)
  qed
  from a b c show ?thesis by auto
qed

theorem pacer_no_overlap_witness:
  "pacer_exec startGameFrameProcessing
     [AnimationFrame 640 4 SendPending, AnimationFrame 640 4 SendPending,
      AnimationFrame 640 4 SendPending]
     = Some \<lparr>isProcessing = True, frameSkipCounter = 3, inFlight = 1\<rparr>
   \<and> \<not> snd (processGameFrame \<lparr>isProcessing = True, frameSkipCounter = 3, inFlight = 1\<rparr>
              640 4 SendPending)
   \<and> inFlight (fst (processGameFrame \<lparr>isProcessing = True, frameSkipCounter = 3, inFlight = 1\<rparr>
                      640 4 SendPending)) = 1"
proof -
  have e: "pacer_exec startGameFrameProcessing
     [AnimationFrame 640 4 SendPending, AnimationFrame 640 4 SendPending,
      AnimationFrame 640 4 SendPending]
     = Some \<lparr>isProcessing = True, frameSkipCounter = 3, inFlight = 1\<rparr>"
    by (simp add: startGameFrameProcessing_def processGameFrame_def Let_def)
  from pacer_no_overlap [OF e, of 640 4 SendPending] e show ?thesis by simp
qed

section \<open>Fallback events at startup\<close>

lemma startup_fallbacks:
  "fallbacks (initGameFaceDetection env)
     = (if \<not> videoElFound env then 0
        else if \<not> faceMeshDefined env \<or> faceMeshSetupThrows env then 1
        else (case camera env of GetUserMediaRejected \<Rightarrow> 2 | PlayFulfilled \<Rightarrow> 0 | _ \<Rightarrow> 1))"
  by (cases "camera env")
     (simp_all add: fallbacks_def initGameFaceDetection_def setupGameCamera_def)

text \<open>
  Claim C2. The code when \<open>getUserMedia\<close> is rejected (the camera permission is
  refused), with the video element found and FaceMesh loaded: \<open>face:fallback\<close> is
  dispatched twice, by the \<open>catch\<close> of \<open>setupGameCamera\<close> and again by the \<open>catch\<close> of
  \<open>initGameFaceDetection\<close> that receives the rethrown error. On the timeout of the
  camera setup and with FaceMesh missing it is dispatched once.
\<close>

theorem fallback_twice_on_permission_refusal:
  "fallbacks (initGameFaceDetection
       \<lparr>videoElFound = True, faceMeshDefined = True, faceMeshSetupThrows = False,
        camera = GetUserMediaRejected\<rparr>) = 2
   \<and> fallbacks (initGameFaceDetection
       \<lparr>videoElFound = True, faceMeshDefined = True, faceMeshSetupThrows = False,
        camera = CameraSetupTimeout\<rparr>) = 1
   \<and> fallbacks (initGameFaceDetection
       \<lparr>videoElFound = True, faceMeshDefined = False, faceMeshSetupThrows = False,
        camera = PlayFulfilled\<rparr>) = 1"
  by (simp add: fallbacks_def initGameFaceDetection_def setupGameCamera_def)

end
